theory Spec2Isabelle
  imports Main
begin

section \<open>Python values, strings and exceptions\<close>

text \<open>
  The tool arguments are a \<^verbatim>\<open>dict[str, Any] | None\<close>. The values a caller can put
  there are modelled by \<open>pyval\<close>; a Python \<^verbatim>\<open>str\<close> is a \<open>string\<close> whose characters
  are the code points below 256. An exception is its class name and its message
  (\<^verbatim>\<open>str(e)\<close>); a function that can raise returns \<open>pyexn + 'a\<close>.
\<close>

datatype pyval = PNone | PBool bool | PInt int | PStr string

datatype pyexn = PyExn (exn_class: string) (exn_msg: string)

fun truthy :: "pyval \<Rightarrow> bool" where
  "truthy PNone = False"
| "truthy (PBool b) = b"
| "truthy (PInt i) = (i \<noteq> 0)"
| "truthy (PStr s) = (s \<noteq> [])"

fun dec_nat :: "nat \<Rightarrow> string" where
  "dec_nat n = (if n < 10 then [char_of (48 + n)]
                else dec_nat (n div 10) @ [char_of (48 + n mod 10)])"

declare dec_nat.simps [simp del]

text \<open>\<^verbatim>\<open>str(v)\<close>, as an f-string formats a value.\<close>

fun py_str :: "pyval \<Rightarrow> string" where
  "py_str PNone = ''None''"
| "py_str (PBool b) = (if b then ''True'' else ''False'')"
| "py_str (PInt i) = (if i < 0 then CHR ''-'' # dec_nat (nat (- i)) else dec_nat (nat i))"
| "py_str (PStr s) = s"

fun type_name :: "pyval \<Rightarrow> string" where
  "type_name PNone = ''NoneType''"
| "type_name (PBool b) = ''bool''"
| "type_name (PInt i) = ''int''"
| "type_name (PStr s) = ''str''"

definition attribute_error :: "pyval \<Rightarrow> string \<Rightarrow> pyexn" where
  "attribute_error v a =
     PyExn ''AttributeError''
       ([CHR 0x27] @ type_name v @ [CHR 0x27] @ '' object has no attribute '' @ [CHR 0x27] @ a @ [CHR 0x27])"

text \<open>\<^verbatim>\<open>str.isspace\<close> on the code points below 256.\<close>

definition is_space :: "char \<Rightarrow> bool" where
  "is_space c = (let n = (of_char c :: nat) in
     (9 \<le> n \<and> n \<le> 13) \<or> (28 \<le> n \<and> n \<le> 32) \<or> n = 133 \<or> n = 160)"

definition strip :: "string \<Rightarrow> string" where
  "strip s = rev (dropWhile is_space (rev (dropWhile is_space s)))"

text \<open>\<^verbatim>\<open>v.strip()\<close> on an untyped value: only a \<^verbatim>\<open>str\<close> has the method.\<close>

fun py_strip :: "pyval \<Rightarrow> pyexn + string" where
  "py_strip (PStr s) = Inr (strip s)"
| "py_strip v = Inl (attribute_error v ''strip'')"

definition is_lower :: "char \<Rightarrow> bool" where
  "is_lower c = (let n = (of_char c :: nat) in 97 \<le> n \<and> n \<le> 122)"

definition is_upper :: "char \<Rightarrow> bool" where
  "is_upper c = (let n = (of_char c :: nat) in 65 \<le> n \<and> n \<le> 90)"

definition to_upper :: "char \<Rightarrow> char" where
  "to_upper c = (if is_lower c then char_of ((of_char c :: nat) - 32) else c)"

definition to_lower :: "char \<Rightarrow> char" where
  "to_lower c = (if is_upper c then char_of ((of_char c :: nat) + 32) else c)"

text \<open>
  The tables of the Unicode character database that \<^verbatim>\<open>str.title()\<close> reads, on the
  code points of the model: whether a character is cased
  (\<^verbatim>\<open>_PyUnicode_IsCased\<close>), its full title-case mapping
  (\<^verbatim>\<open>_PyUnicode_ToTitleFull\<close>) and its full lower-case mapping
  (\<^verbatim>\<open>_PyUnicode_ToLowerFull\<close>). They are data of the interpreter and a parameter here.
\<close>

record unicode_tables =
  is_cased :: "char \<Rightarrow> bool"
  to_title_full :: "char \<Rightarrow> string"
  to_lower_full :: "char \<Rightarrow> string"

text \<open>
  \<^verbatim>\<open>str.title()\<close>, as CPython's \<^verbatim>\<open>do_title\<close> computes it: a character that follows a
  cased character is replaced by its lower-case mapping, any other character by its
  title-case mapping, and \<^verbatim>\<open>previous_is_cased\<close> becomes whether the character is
  cased. A \<open>string\<close> holds the code points up to 255: the one exception of
  \<^verbatim>\<open>do_title\<close>, the final sigma, is beyond them, and so are the title-case mappings of
  two of them, \<^verbatim>\<open>U+00B5\<close> and \<^verbatim>\<open>U+00FF\<close>, which no table of this type can give.
\<close>

fun title_from :: "unicode_tables \<Rightarrow> bool \<Rightarrow> string \<Rightarrow> string" where
  "title_from u previous_is_cased [] = []"
| "title_from u previous_is_cased (c # cs) =
     (if previous_is_cased then to_lower_full u c else to_title_full u c)
     @ title_from u (is_cased u c) cs"

definition title :: "unicode_tables \<Rightarrow> string \<Rightarrow> string" where
  "title u s = title_from u False s"

fun py_title :: "unicode_tables \<Rightarrow> pyval \<Rightarrow> pyexn + string" where
  "py_title u (PStr s) = Inr (title u s)"
| "py_title u v = Inl (attribute_error v ''title'')"

text \<open>
  \<^verbatim>\<open>repr(s)\<close> of a \<^verbatim>\<open>str\<close>, as an \<^verbatim>\<open>OSError\<close> shows its file name: single quotes
  unless the string has a single quote and no double quote; the quote and the
  backslash escaped; tab, line feed and carriage return as \<^verbatim>\<open>\t\<close>, \<^verbatim>\<open>\n\<close>, \<^verbatim>\<open>\r\<close>;
  every other character that is not printable as \<^verbatim>\<open>\xhh\<close>.
\<close>

definition hex_digit :: "nat \<Rightarrow> char" where
  "hex_digit n = (if n < 10 then char_of (48 + n) else char_of (87 + n))"

definition is_printable :: "char \<Rightarrow> bool" where
  "is_printable c = (let n = (of_char c :: nat) in
     (32 \<le> n \<and> n < 127) \<or> (161 \<le> n \<and> n \<noteq> 173))"

definition repr_char :: "char \<Rightarrow> char \<Rightarrow> string" where
  "repr_char quote c =
     (if c = quote \<or> c = CHR 0x5C then [CHR 0x5C, c]
      else if c = CHR 0x09 then [CHR 0x5C, CHR ''t'']
      else if c = CHR 0x0A then [CHR 0x5C, CHR ''n'']
      else if c = CHR 0x0D then [CHR 0x5C, CHR ''r'']
      else if is_printable c then [c]
      else [CHR 0x5C, CHR ''x'', hex_digit ((of_char c :: nat) div 16),
            hex_digit ((of_char c :: nat) mod 16)])"

definition py_repr :: "string \<Rightarrow> string" where
  "py_repr s =
     (let quote = (if CHR 0x27 \<in> set s \<and> CHR 0x22 \<notin> set s then CHR 0x22 else CHR 0x27)
      in [quote] @ concat (map (repr_char quote) s) @ [quote])"

text \<open>\<^verbatim>\<open>sep.join(xs)\<close>.\<close>

fun join :: "string \<Rightarrow> string list \<Rightarrow> string" where
  "join sep [] = []"
| "join sep [x] = x"
| "join sep (x # y # ys) = x @ sep @ join sep (y # ys)"

section \<open>Paths and the filesystem\<close>

text \<open>
  A \<^verbatim>\<open>pathlib.Path\<close> is the list of its components from the root. The filesystem
  maps a path to a directory or to a file with its text; the root always exists.
  \<open>read_only\<close> is a filesystem on which every creation and every write fails.
\<close>

type_synonym path = "string list"

datatype node = File string | Dir

record fs =
  nodes :: "path \<Rightarrow> node option"
  read_only :: bool

definition lookup :: "fs \<Rightarrow> path \<Rightarrow> node option" where
  "lookup s p = (if p = [] then Some Dir else nodes s p)"

definition path_exists :: "fs \<Rightarrow> path \<Rightarrow> bool" where
  "path_exists s p = (lookup s p \<noteq> None)"

definition is_dir :: "fs \<Rightarrow> path \<Rightarrow> bool" where
  "is_dir s p = (lookup s p = Some Dir)"

fun split_on :: "char \<Rightarrow> string \<Rightarrow> string list" where
  "split_on c [] = [[]]"
| "split_on c (x # xs) =
     (if x = c then [] # split_on c xs
      else (case split_on c xs of [] \<Rightarrow> [[x]] | w # ws \<Rightarrow> (x # w) # ws))"

definition parts :: "string \<Rightarrow> path" where
  "parts s = filter (\<lambda>w. w \<noteq> [] \<and> w \<noteq> ''.'') (split_on CHR ''/'' s)"

text \<open>
  \<^verbatim>\<open>p / s\<close>: the components of \<open>s\<close> are appended, empty and \<^verbatim>\<open>.\<close> components are
  dropped, and an absolute \<open>s\<close> replaces \<open>p\<close>.
\<close>

definition path_join :: "path \<Rightarrow> string \<Rightarrow> path" where
  "path_join p s = (if s \<noteq> [] \<and> hd s = CHR ''/'' then parts s else p @ parts s)"

text \<open>\<^verbatim>\<open>str(p)\<close> of an absolute path.\<close>

definition path_str :: "path \<Rightarrow> string" where
  "path_str p = (if p = [] then ''/'' else concat (map (\<lambda>c. CHR ''/'' # c) p))"

text \<open>\<^verbatim>\<open>str(f.relative_to(p))\<close>: raises \<^verbatim>\<open>ValueError\<close> when \<open>f\<close> is not below \<open>p\<close>.\<close>

definition relative_to :: "path \<Rightarrow> path \<Rightarrow> pyexn + string" where
  "relative_to f p =
     (if take (length p) f = p
      then Inr (if drop (length p) f = [] then ''.'' else join ''/'' (drop (length p) f))
      else Inl (PyExn ''ValueError''
             (py_repr (path_str f) @ '' is not in the subpath of '' @ py_repr (path_str p))))"

text \<open>
  An \<^verbatim>\<open>OSError\<close> of the operating system for a path: its class, and as
  \<^verbatim>\<open>str(e)\<close> the text \<^verbatim>\<open>[Errno n] reason: 'path'\<close>.
\<close>

definition os_error :: "string \<Rightarrow> nat \<Rightarrow> string \<Rightarrow> path \<Rightarrow> pyexn" where
  "os_error cls errno reason p =
     PyExn cls (''[Errno '' @ dec_nat errno @ ''] '' @ reason @ '': '' @ py_repr (path_str p))"

definition file_exists_error :: "path \<Rightarrow> pyexn" where
  "file_exists_error p = os_error ''FileExistsError'' 17 ''File exists'' p"

definition file_not_found_error :: "path \<Rightarrow> pyexn" where
  "file_not_found_error p = os_error ''FileNotFoundError'' 2 ''No such file or directory'' p"

definition not_a_directory_error :: "path \<Rightarrow> pyexn" where
  "not_a_directory_error p = os_error ''NotADirectoryError'' 20 ''Not a directory'' p"

definition is_a_directory_error :: "path \<Rightarrow> pyexn" where
  "is_a_directory_error p = os_error ''IsADirectoryError'' 21 ''Is a directory'' p"

definition read_only_error :: "path \<Rightarrow> pyexn" where
  "read_only_error p = os_error ''OSError'' 30 ''Read-only file system'' p"

text \<open>\<^verbatim>\<open>os.mkdir(p)\<close>.\<close>

definition os_mkdir :: "fs \<Rightarrow> path \<Rightarrow> pyexn + fs" where
  "os_mkdir s p =
     (case lookup s p of
        Some n \<Rightarrow> Inl (file_exists_error p)
      | None \<Rightarrow>
          (case lookup s (butlast p) of
             None \<Rightarrow> Inl (file_not_found_error p)
           | Some (File t) \<Rightarrow> Inl (not_a_directory_error p)
           | Some Dir \<Rightarrow>
               if read_only s then Inl (read_only_error p)
               else Inr (s\<lparr>nodes := (nodes s)(p \<mapsto> Dir)\<rparr>)))"

text \<open>\<^verbatim>\<open>p.mkdir(parents=False, exist_ok=True)\<close>.\<close>

definition mkdir_exist_ok :: "fs \<Rightarrow> path \<Rightarrow> pyexn + fs" where
  "mkdir_exist_ok s p =
     (case os_mkdir s p of
        Inr s' \<Rightarrow> Inr s'
      | Inl e \<Rightarrow>
          if exn_class e = ''FileNotFoundError'' then Inl e
          else if is_dir s p then Inr s else Inl e)"

text \<open>
  \<^verbatim>\<open>p.mkdir(parents=True, exist_ok=True)\<close>, as pathlib writes it: try
  \<^verbatim>\<open>os.mkdir\<close>; on \<^verbatim>\<open>FileNotFoundError\<close> make the parent the same way and
  try once more; on any other \<^verbatim>\<open>OSError\<close> succeed only if the directory is there.
\<close>

function mkdir_parents :: "fs \<Rightarrow> path \<Rightarrow> pyexn + fs" where
  "mkdir_parents s p =
     (case os_mkdir s p of
        Inr s' \<Rightarrow> Inr s'
      | Inl e \<Rightarrow>
          if exn_class e = ''FileNotFoundError'' then
            (if p = [] then Inl e
             else (case mkdir_parents s (butlast p) of
                     Inl e' \<Rightarrow> Inl e'
                   | Inr s' \<Rightarrow> mkdir_exist_ok s' p))
          else if is_dir s p then Inr s else Inl e)"
  by pat_completeness auto
termination
  by (relation "measure (\<lambda>(s, p). length p)") auto

declare mkdir_parents.simps [simp del]

text \<open>\<^verbatim>\<open>with open(p, "w") as f: f.write(t)\<close>.\<close>

definition open_write :: "fs \<Rightarrow> path \<Rightarrow> string \<Rightarrow> pyexn + fs" where
  "open_write s p t =
     (case lookup s p of
        Some Dir \<Rightarrow> Inl (is_a_directory_error p)
      | Some (File old) \<Rightarrow>
          if read_only s then Inl (read_only_error p)
          else Inr (s\<lparr>nodes := (nodes s)(p \<mapsto> File t)\<rparr>)
      | None \<Rightarrow>
          (case lookup s (butlast p) of
             None \<Rightarrow> Inl (file_not_found_error p)
           | Some (File u) \<Rightarrow> Inl (not_a_directory_error p)
           | Some Dir \<Rightarrow>
               if read_only s then Inl (read_only_error p)
               else Inr (s\<lparr>nodes := (nodes s)(p \<mapsto> File t)\<rparr>)))"

text \<open>\<^verbatim>\<open>with open(p, "r") as f: f.read()\<close>.\<close>

definition open_read :: "fs \<Rightarrow> path \<Rightarrow> pyexn + string" where
  "open_read s p =
     (case lookup s p of
        Some (File t) \<Rightarrow> Inr t
      | Some Dir \<Rightarrow> Inl (is_a_directory_error p)
      | None \<Rightarrow> Inl (file_not_found_error p))"

section \<open>Configuration constants\<close>

definition MARKDOWN_EXTENSION :: string where
  "MARKDOWN_EXTENSION = ''.md''"

definition TAXONOMY_OVERVIEW_SUFFIX :: string where
  "TAXONOMY_OVERVIEW_SUFFIX = ''-overview''"

definition MAX_DESCRIPTION_LINES :: nat where
  "MAX_DESCRIPTION_LINES = 3"

section \<open>The collaborators of entry creation\<close>

text \<open>
  \<^verbatim>\<open>mcp.types.TextContent(type=..., text=...)\<close>, the tool arguments, and what a
  handler does: it reads and writes the filesystem and returns a list of text blocks
  or raises.
\<close>

datatype text_content = TextContent (tc_type: string) (tc_text: string)

type_synonym arguments = "(string \<times> pyval) list option"

type_synonym handler = "arguments \<Rightarrow> fs \<Rightarrow> (pyexn + text_content list) \<times> fs"

text \<open>
  The functions that \<^verbatim>\<open>entries/creation.py\<close> and \<^verbatim>\<open>tools/entries.py\<close> import
  from modules whose source is not available here (\<^verbatim>\<open>utils.path_helpers\<close>,
  \<^verbatim>\<open>utils.content_parsing\<close>, \<^verbatim>\<open>entries.utilities\<close>, \<^verbatim>\<open>entries.stub_generation\<close>,
  \<^verbatim>\<open>entries.content_processing\<close>, \<^verbatim>\<open>entries.consistency\<close>) are parameters of
  the model, under their own names. Each may raise. Those that the flow calls for
  reading take the filesystem and return no new one; the four other tool handlers are
  arbitrary handlers. \<open>'e\<close> is whatever
  \<^verbatim>\<open>get_existing_entries_with_descriptions\<close> returns. With them come the Unicode
  tables of the interpreter that \<^verbatim>\<open>taxonomy.title()\<close> reads.
\<close>

record 'e collaborators =
  unicodedata :: unicode_tables
  resolve_world_path :: "pyval \<Rightarrow> pyexn + path"
  clean_name :: "pyval \<Rightarrow> pyexn + string"
  extract_taxonomy_context :: "fs \<Rightarrow> path \<Rightarrow> string \<Rightarrow> pyexn + string"
  get_existing_taxonomies :: "fs \<Rightarrow> path \<Rightarrow> pyexn + string list"
  get_existing_entries_with_descriptions :: "fs \<Rightarrow> path \<Rightarrow> pyexn + 'e"
  create_world_context_prompt ::
    "string list \<Rightarrow> 'e \<Rightarrow> string \<Rightarrow> string \<Rightarrow> pyval \<Rightarrow> pyexn + string"
  extract_description_from_content :: "string \<Rightarrow> pyexn + string"
  add_frontmatter_to_content :: "string \<Rightarrow> (string \<times> string) list \<Rightarrow> pyexn + string"
  generate_stub_analysis :: "fs \<Rightarrow> path \<Rightarrow> pyval \<Rightarrow> pyval \<Rightarrow> string \<Rightarrow> pyexn + string"
  create_stub_entries :: handler
  generate_entry_descriptions :: handler
  add_entry_frontmatter :: handler
  analyze_world_consistency :: handler

section \<open>entries/creation.py\<close>

text \<open>
  \<^verbatim>\<open>_get_world_overview\<close>: the first 500 characters of
  \<^verbatim>\<open>overview/world-overview.md\<close>, with an ellipsis when there are more; the empty
  string when the file is missing or cannot be read.
\<close>

definition get_world_overview :: "fs \<Rightarrow> path \<Rightarrow> string" where
  "get_world_overview s world_path =
     (let overview_path = path_join (path_join world_path ''overview'') ''world-overview.md'' in
      if path_exists s overview_path then
        (case open_read s overview_path of
           Inr content \<Rightarrow> take 500 content @ (if length content > 500 then ''...'' else [])
         | Inl e \<Rightarrow> [])
      else [])"

text \<open>\<^verbatim>\<open>_create_entry_file\<close>'s footer, \<^verbatim>\<open>f"\n\n---\n*Entry in {taxonomy.title()} taxonomy*\n"\<close>.\<close>

definition taxonomy_footer :: "string \<Rightarrow> string" where
  "taxonomy_footer titled =
     [CHR 0x0A, CHR 0x0A] @ ''---'' @ [CHR 0x0A] @ ''*Entry in '' @ titled @ '' taxonomy*'' @ [CHR 0x0A]"

text \<open>The frontmatter dictionary that \<^verbatim>\<open>_create_entry_file\<close> builds, in insertion order.\<close>

definition entry_frontmatter :: "string \<Rightarrow> string \<Rightarrow> (string \<times> string) list" where
  "entry_frontmatter description taxonomy_context =
     [(''description'', description), (''article_type'', ''full'')]
     @ (if taxonomy_context \<noteq> [] then [(''taxonomyContext'', taxonomy_context)] else [])"

text \<open>
  \<^verbatim>\<open>_create_entry_file\<close>. It returns the file's path or raises, and in both cases the
  filesystem as it has left it (the directory made before a failed write stays).
\<close>

definition create_entry_file ::
  "'e collaborators \<Rightarrow> path \<Rightarrow> string \<Rightarrow> string \<Rightarrow> pyval \<Rightarrow> string \<Rightarrow> pyval \<Rightarrow> string
     \<Rightarrow> fs \<Rightarrow> (pyexn + path) \<times> fs" where
  "create_entry_file h world_path clean_taxonomy clean_entry entry_name entry_content
       taxonomy taxonomy_context s =
     (let entry_path = path_join (path_join world_path ''entries'') clean_taxonomy in
      case mkdir_parents s entry_path of
        Inl e \<Rightarrow> (Inl e, s)
      | Inr s1 \<Rightarrow>
     (let entry_file = path_join entry_path (clean_entry @ MARKDOWN_EXTENSION) in
      case extract_description_from_content h entry_content of
        Inl e \<Rightarrow> (Inl e, s1)
      | Inr description \<Rightarrow>
     (let frontmatter = entry_frontmatter description taxonomy_context in
      case add_frontmatter_to_content h entry_content frontmatter of
        Inl e \<Rightarrow> (Inl e, s1)
      | Inr with_header \<Rightarrow>
     (case py_title (unicodedata h) taxonomy of
        Inl e \<Rightarrow> (Inl e, s1)
      | Inr titled \<Rightarrow>
     (let final_content = with_header @ taxonomy_footer titled in
      case open_write s1 entry_file final_content of
        Inl e \<Rightarrow> (Inl e, s1)
      | Inr s2 \<Rightarrow> (Inr entry_file, s2))))))"

text \<open>\<^verbatim>\<open>_generate_optimized_entry_image\<close>: disabled, it returns the empty string.\<close>

definition generate_optimized_entry_image ::
  "path \<Rightarrow> string \<Rightarrow> string \<Rightarrow> pyval \<Rightarrow> string \<Rightarrow> string" where
  "generate_optimized_entry_image world_path clean_taxonomy clean_entry entry_name entry_content = []"

abbreviation NL :: string where
  "NL \<equiv> [CHR 0x0A]"

abbreviation SQ :: string where
  "SQ \<equiv> [CHR 0x27]"

definition text_result :: "string \<Rightarrow> text_content list" where
  "text_result t = [TextContent ''text'' t]"

text \<open>The messages and responses of \<^verbatim>\<open>create_world_entry\<close>, one per \<^verbatim>\<open>return\<close>.\<close>

definition no_arguments_text :: string where
  "no_arguments_text = ''Error: No arguments provided''"

definition required_text :: string where
  "required_text = ''Error: world_directory, taxonomy, and entry_name are required''"

definition no_world_text :: "path \<Rightarrow> string" where
  "no_world_text world_path = ''Error: World directory '' @ path_str world_path @ '' does not exist''"

definition taxonomy_list :: "string list \<Rightarrow> string" where
  "taxonomy_list existing_taxonomies =
     (if existing_taxonomies \<noteq> [] then join '', '' existing_taxonomies else ''None'')"

definition no_taxonomy_text :: "pyval \<Rightarrow> string list \<Rightarrow> string" where
  "no_taxonomy_text taxonomy existing_taxonomies =
     ''Error: Taxonomy '' @ SQ @ py_str taxonomy @ SQ @ '' does not exist. Available taxonomies: ''
     @ taxonomy_list existing_taxonomies @ NL @ NL
     @ ''Use the create_taxonomy tool to create this taxonomy first.''"

definition context_info :: "string \<Rightarrow> string" where
  "context_info taxonomy_context =
     (if taxonomy_context \<noteq> []
      then NL @ NL @ ''Taxonomy context included: '' @ take 100 taxonomy_context @ ''...''
      else NL @ NL @ ''No taxonomy overview found for reference.'')"

definition created_text :: "pyval \<Rightarrow> string \<Rightarrow> string \<Rightarrow> string \<Rightarrow> string \<Rightarrow> string \<Rightarrow> string" where
  "created_text entry_name world_context relative_path ctx_info image_info stub_analysis_info =
     ''# World Context Used for '' @ SQ @ py_str entry_name @ SQ @ NL @ NL @ world_context
     @ NL @ NL @ ''---'' @ NL @ NL @ ''## Entry Created Successfully!'' @ NL @ NL
     @ ''Saved to: '' @ relative_path @ ctx_info @ NL @ NL @ ''The entry includes:'' @ NL
     @ ''1. YAML frontmatter with description'' @ NL @ ''2. Your detailed content'' @ NL
     @ ''3. Taxonomy classification footer'' @ image_info @ stub_analysis_info @ NL @ NL
     @ ''**Note**: Review the content above - it should include crosslinks to existing entries based on the context provided.''"

definition context_only_text :: "pyval \<Rightarrow> pyval \<Rightarrow> string \<Rightarrow> string" where
  "context_only_text entry_name taxonomy world_context =
     ''# World Context for Creating '' @ SQ @ py_str entry_name @ SQ @ '' in '' @ py_str taxonomy
     @ NL @ NL @ world_context @ NL @ NL @ ''---'' @ NL @ NL
     @ ''**Next Step**: Generate entry content that references existing entries using the linking format provided above, then call this tool again with your `entry_content`.''"

definition failure_text :: "pyexn \<Rightarrow> string" where
  "failure_text e = ''Error creating world entry: '' @ exn_msg e"

text \<open>
  The branch of \<^verbatim>\<open>create_world_entry\<close> that has content: write the file, then the
  image step, the stub analysis and the response. What is raised after the write
  leaves the written file in place.
\<close>

definition create_with_content ::
  "'e collaborators \<Rightarrow> path \<Rightarrow> string \<Rightarrow> string \<Rightarrow> pyval \<Rightarrow> string \<Rightarrow> pyval \<Rightarrow> string
     \<Rightarrow> string \<Rightarrow> fs \<Rightarrow> (pyexn + text_content list) \<times> fs" where
  "create_with_content h world_path clean_taxonomy clean_entry entry_name entry_content
       taxonomy taxonomy_context world_context s =
     (case create_entry_file h world_path clean_taxonomy clean_entry entry_name entry_content
             taxonomy taxonomy_context s of
        (Inl e, s') \<Rightarrow> (Inl e, s')
      | (Inr entry_file, s') \<Rightarrow>
     (let image_info = generate_optimized_entry_image world_path clean_taxonomy clean_entry
                         entry_name entry_content in
      case generate_stub_analysis h s' world_path entry_name taxonomy entry_content of
        Inl e \<Rightarrow> (Inl e, s')
      | Inr stub_analysis_info \<Rightarrow>
     (case relative_to entry_file world_path of
        Inl e \<Rightarrow> (Inl e, s')
      | Inr relative_path \<Rightarrow>
          (Inr (text_result (created_text entry_name world_context relative_path
                  (context_info taxonomy_context) image_info stub_analysis_info)), s'))))"

text \<open>The body of the \<^verbatim>\<open>try\<close> block of \<^verbatim>\<open>create_world_entry\<close> (lines 84 to 218).\<close>

definition create_world_entry_try ::
  "'e collaborators \<Rightarrow> pyval \<Rightarrow> pyval \<Rightarrow> pyval \<Rightarrow> pyval \<Rightarrow> fs
     \<Rightarrow> (pyexn + text_content list) \<times> fs" where
  "create_world_entry_try h world_directory taxonomy entry_name entry_content s =
     (case resolve_world_path h world_directory of
        Inl e \<Rightarrow> (Inl e, s)
      | Inr world_path \<Rightarrow>
     if \<not> path_exists s world_path then (Inr (text_result (no_world_text world_path)), s)
     else
     (case clean_name h taxonomy of
        Inl e \<Rightarrow> (Inl e, s)
      | Inr clean_taxonomy \<Rightarrow>
     (case clean_name h entry_name of
        Inl e \<Rightarrow> (Inl e, s)
      | Inr clean_entry \<Rightarrow>
     (let taxonomy_overview_file =
            path_join (path_join world_path ''taxonomies'')
              (clean_taxonomy @ TAXONOMY_OVERVIEW_SUFFIX @ ''.md'') in
      if \<not> path_exists s taxonomy_overview_file then
        (case get_existing_taxonomies h s world_path of
           Inl e \<Rightarrow> (Inl e, s)
         | Inr existing_taxonomies \<Rightarrow>
             (Inr (text_result (no_taxonomy_text taxonomy existing_taxonomies)), s))
      else
     (case extract_taxonomy_context h s world_path clean_taxonomy of
        Inl e \<Rightarrow> (Inl e, s)
      | Inr taxonomy_context \<Rightarrow>
     (case get_existing_taxonomies h s world_path of
        Inl e \<Rightarrow> (Inl e, s)
      | Inr existing_taxonomies \<Rightarrow>
     (case get_existing_entries_with_descriptions h s world_path of
        Inl e \<Rightarrow> (Inl e, s)
      | Inr existing_entries \<Rightarrow>
     (let world_overview = get_world_overview s world_path in
      case create_world_context_prompt h existing_taxonomies existing_entries taxonomy_context
             world_overview taxonomy of
        Inl e \<Rightarrow> (Inl e, s)
      | Inr world_context \<Rightarrow>
     (case entry_content of
        PStr content \<Rightarrow>
          if strip content \<noteq> [] then
            create_with_content h world_path clean_taxonomy clean_entry entry_name content
              taxonomy taxonomy_context world_context s
          else (Inr (text_result (context_only_text entry_name taxonomy world_context)), s)
      | _ \<Rightarrow> (Inl (attribute_error entry_content ''strip''), s))))))))))"

text \<open>
  \<^verbatim>\<open>create_world_entry\<close>. The debug prints are left out, except the one of line 73,
  which evaluates \<^verbatim>\<open>entry_content.strip()\<close> before the required arguments are
  checked and before the \<^verbatim>\<open>try\<close>. \<^verbatim>\<open>except Exception\<close> turns what the body raises
  into a text.
\<close>

definition args_get :: "(string \<times> pyval) list \<Rightarrow> string \<Rightarrow> pyval" where
  "args_get a k = (case map_of a k of None \<Rightarrow> PStr [] | Some v \<Rightarrow> v)"

definition create_world_entry :: "'e collaborators \<Rightarrow> handler" where
  "create_world_entry h arguments s =
     (case arguments of
        None \<Rightarrow> (Inr (text_result no_arguments_text), s)
      | Some a \<Rightarrow>
     if a = [] then (Inr (text_result no_arguments_text), s)
     else
     (let world_directory = args_get a ''world_directory'';
          taxonomy = args_get a ''taxonomy'';
          entry_name = args_get a ''entry_name'';
          entry_content = args_get a ''entry_content'' in
      case py_strip entry_content of
        Inl e \<Rightarrow> (Inl e, s)
      | Inr has_content \<Rightarrow>
     if \<not> (truthy world_directory \<and> truthy taxonomy \<and> truthy entry_name)
     then (Inr (text_result required_text), s)
     else
     (case create_world_entry_try h world_directory taxonomy entry_name entry_content s of
        (Inl e, s') \<Rightarrow> (Inr (text_result (failure_text e)), s')
      | (Inr result, s') \<Rightarrow> (Inr result, s'))))"

section \<open>tools/entries.py\<close>

text \<open>The dictionary \<^verbatim>\<open>ENTRY_HANDLERS\<close>.\<close>

definition ENTRY_HANDLERS :: "'e collaborators \<Rightarrow> (string \<times> handler) list" where
  "ENTRY_HANDLERS h =
     [(''create_world_entry'', create_world_entry h),
      (''create_stub_entries'', create_stub_entries h),
      (''generate_entry_descriptions'', generate_entry_descriptions h),
      (''add_entry_frontmatter'', add_entry_frontmatter h),
      (''analyze_world_consistency'', analyze_world_consistency h)]"

text \<open>
  \<^verbatim>\<open>handle_entry_tool\<close>: an unknown name raises \<^verbatim>\<open>ValueError\<close>; otherwise the
  handler's result is returned, and what it raises is raised again.
\<close>

definition handle_entry_tool ::
  "'e collaborators \<Rightarrow> string \<Rightarrow> arguments \<Rightarrow> fs \<Rightarrow> (pyexn + text_content list) \<times> fs" where
  "handle_entry_tool h name arguments s =
     (case map_of (ENTRY_HANDLERS h) name of
        None \<Rightarrow> (Inl (PyExn ''ValueError'' (''Unknown entry tool: '' @ name)), s)
      | Some handler \<Rightarrow>
          (case handler arguments s of
             (Inr result, s') \<Rightarrow> (Inr result, s')
           | (Inl e, s') \<Rightarrow> (Inl e, s')))"

section \<open>The content parser and the name cleaner, from the specification\<close>

text \<open>
  The source of \<^verbatim>\<open>utils/content_parsing.py\<close> and of \<^verbatim>\<open>entries/utilities.py\<close> is not
  available. The functions below follow sections 4.1, 4.2 and 6 of the
  specification; they decide the round trip of the frontmatter, and they are the
  collaborators of the worked example of entry creation.
\<close>

abbreviation DQ :: string where
  "DQ \<equiv> [CHR 0x22]"

text \<open>
  Modelled from the spec: the escaping of a key or a value inside a header line, which
  the specification leaves open. A header line must stay one line and must split at
  its first colon, so a backslash, a line feed and a colon are written as a backslash
  followed by a backslash, \<^verbatim>\<open>n\<close> and \<^verbatim>\<open>c\<close>.
\<close>

fun esc :: "string \<Rightarrow> string" where
  "esc [] = []"
| "esc (x # xs) =
     (if x = CHR 0x5C then [CHR 0x5C, CHR 0x5C]
      else if x = CHR 0x0A then [CHR 0x5C, CHR ''n'']
      else if x = CHR '':'' then [CHR 0x5C, CHR ''c'']
      else [x]) @ esc xs"

fun unesc :: "string \<Rightarrow> string" where
  "unesc [] = []"
| "unesc [x] = [x]"
| "unesc (x # y # r) =
     (if x = CHR 0x5C
      then (if y = CHR ''n'' then CHR 0x0A else if y = CHR ''c'' then CHR '':'' else y) # unesc r
      else x # unesc (y # r))"

text \<open>
  Modelled from the spec: one key-value pair of the header block, written as in the
  specification's example \<^verbatim>\<open>description: "A tall tree."\<close>, and read back.
\<close>

definition render_line :: "string \<times> string \<Rightarrow> string" where
  "render_line kv = esc (fst kv) @ '': '' @ DQ @ esc (snd kv) @ DQ"

definition parse_line :: "string \<Rightarrow> (string \<times> string) option" where
  "parse_line l =
     (let k = takeWhile (\<lambda>x. x \<noteq> CHR '':'') l;
          r = dropWhile (\<lambda>x. x \<noteq> CHR '':'') l in
      if 4 \<le> length r \<and> take 3 r = '': '' @ DQ \<and> last r = CHR 0x22
      then Some (unesc k, unesc (butlast (drop 3 r)))
      else None)"

text \<open>
  Modelled from the spec: the header block of the document format (section 6), "a
  structured metadata header (key-value pairs) followed by a blank line, the body
  text". The block is fenced by two \<^verbatim>\<open>---\<close> lines.
\<close>

definition render_header :: "(string \<times> string) list \<Rightarrow> string" where
  "render_header fm =
     ''---'' @ NL @ concat (map (\<lambda>kv. render_line kv @ NL) fm) @ ''---'' @ NL @ NL"

text \<open>
  Modelled from the spec: reading the lines of a header block up to its closing fence.
  \<open>None\<close> is a block that never closes or a line that is no key-value pair.
\<close>

fun parse_lines :: "string list \<Rightarrow> ((string \<times> string) list \<times> string list) option" where
  "parse_lines [] = None"
| "parse_lines (l # ls) =
     (if l = ''---'' then Some ([], ls)
      else (case parse_line l of
              None \<Rightarrow> None
            | Some kv \<Rightarrow>
                (case parse_lines ls of
                   None \<Rightarrow> None
                 | Some (kvs, rest) \<Rightarrow> Some (kv # kvs, rest))))"

text \<open>
  Modelled from the spec: the header block at the top of a document, if there is a
  well-formed one: its mapping and the body after the blank line.
\<close>

definition parse_header :: "string \<Rightarrow> ((string \<times> string) list \<times> string) option" where
  "parse_header content =
     (case split_on (CHR 0x0A) content of
        [] \<Rightarrow> None
      | first # ls \<Rightarrow>
          if first = ''---'' then
            (case parse_lines ls of
               None \<Rightarrow> None
             | Some (fm, rest) \<Rightarrow>
                 Some (fm, join NL (case rest of [] \<Rightarrow> [] | b # bs \<Rightarrow> if b = [] then bs else rest)))
          else None)"

text \<open>
  Modelled from the spec: \<^verbatim>\<open>extract_frontmatter(content)\<close> "parses an existing header
  block into a mapping plus the remaining body; returns an empty mapping if no header
  block is present (never raises on malformed input)".
\<close>

definition extract_frontmatter :: "string \<Rightarrow> (string \<times> string) list \<times> string" where
  "extract_frontmatter content =
     (case parse_header content of None \<Rightarrow> ([], content) | Some (fm, body) \<Rightarrow> (fm, body))"

text \<open>
  Modelled from the spec: \<^verbatim>\<open>add_frontmatter(content, fields)\<close> "serializes fields as a
  structured header block and prepends it to content, producing one document; must not
  duplicate a header block if one already exists in content (detect and replace rather
  than stack two headers)".
\<close>

definition add_frontmatter :: "string \<Rightarrow> (string \<times> string) list \<Rightarrow> string" where
  "add_frontmatter content fm = render_header fm @ snd (extract_frontmatter content)"

text \<open>
  Modelled from the spec: \<^verbatim>\<open>extract_description(content)\<close> "returns the first
  non-empty block of prose up to a fixed line budget (3 lines); returns empty string if
  content is empty". A block is a run of lines that are not blank.
\<close>

definition blank :: "string \<Rightarrow> bool" where
  "blank l = (strip l = [])"

definition extract_description :: "string \<Rightarrow> string" where
  "extract_description content =
     join '' '' (map strip (take MAX_DESCRIPTION_LINES
       (takeWhile (\<lambda>l. \<not> blank l) (dropWhile blank (split_on (CHR 0x0A) content)))))"

text \<open>
  Modelled from the spec: the cleaned name of section 4.1, "lowercased,
  leading/trailing whitespace trimmed, internal whitespace and disallowed characters
  replaced with hyphens". Letters, digits, the hyphen and the underscore are allowed.
\<close>

definition allowed :: "char \<Rightarrow> bool" where
  "allowed c = (let n = (of_char c :: nat) in
     (97 \<le> n \<and> n \<le> 122) \<or> (48 \<le> n \<and> n \<le> 57) \<or> c = CHR ''-'' \<or> c = CHR ''_'')"

definition clean :: "string \<Rightarrow> string" where
  "clean name = map (\<lambda>c. if allowed c then c else CHR ''-'') (map to_lower (strip name))"

text \<open>
  The collaborators of the worked example: the functions above, a fixed list of
  taxonomies, no context, and tool handlers that return nothing. The world directory
  argument is resolved below the root. Its Unicode tables are those of the ASCII
  letters, which is what the names of the example need.
\<close>

definition ascii_tables :: unicode_tables where
  "ascii_tables =
     \<lparr> is_cased = (\<lambda>c. is_lower c \<or> is_upper c),
       to_title_full = (\<lambda>c. [to_upper c]),
       to_lower_full = (\<lambda>c. [to_lower c]) \<rparr>"

definition example_collaborators :: "unit collaborators" where
  "example_collaborators =
     \<lparr> unicodedata = ascii_tables,
       resolve_world_path = (\<lambda>v. Inr (parts (py_str v))),
       clean_name = (\<lambda>v. Inr (clean (py_str v))),
       extract_taxonomy_context = (\<lambda>s world_path clean_taxonomy. Inr []),
       get_existing_taxonomies = (\<lambda>s world_path. Inr [''fauna'', ''flora'']),
       get_existing_entries_with_descriptions = (\<lambda>s world_path. Inr ()),
       create_world_context_prompt = (\<lambda>ts es tc wo taxonomy. Inr ''Existing taxonomies: fauna, flora''),
       extract_description_from_content = (\<lambda>c. Inr (extract_description c)),
       add_frontmatter_to_content = (\<lambda>c f. Inr (add_frontmatter c f)),
       generate_stub_analysis = (\<lambda>s world_path entry_name taxonomy c. Inr []),
       create_stub_entries = (\<lambda>a s. (Inr [], s)),
       generate_entry_descriptions = (\<lambda>a s. (Inr [], s)),
       add_entry_frontmatter = (\<lambda>a s. (Inr [], s)),
       analyze_world_consistency = (\<lambda>a s. (Inr [], s)) \<rparr>"

text \<open>
  The world of the specification's example: a world directory with the taxonomies
  \<^verbatim>\<open>flora\<close> and \<^verbatim>\<open>fauna\<close> and no entries.
\<close>

definition example_world :: fs where
  "example_world =
     \<lparr> nodes = [[''world''] \<mapsto> Dir,
                [''world'', ''taxonomies''] \<mapsto> Dir,
                [''world'', ''taxonomies'', ''flora-overview.md''] \<mapsto> File ''# Flora'',
                [''world'', ''taxonomies'', ''fauna-overview.md''] \<mapsto> File ''# Fauna''],
       read_only = False \<rparr>"

definition example_arguments :: "string \<Rightarrow> string \<Rightarrow> string \<Rightarrow> (string \<times> pyval) list" where
  "example_arguments world_directory taxonomy content =
     [(''world_directory'', PStr world_directory), (''taxonomy'', PStr taxonomy),
      (''entry_name'', PStr ''Red Oak''), (''entry_content'', PStr content)]"

text \<open>
  A name that is one component of a path and names an entry of its directory: not
  empty, neither \<^verbatim>\<open>.\<close> nor \<^verbatim>\<open>..\<close>, and without a slash.
\<close>

definition is_component :: "string \<Rightarrow> bool" where
  "is_component c = (c \<noteq> [] \<and> c \<noteq> ''.'' \<and> c \<noteq> ''..'' \<and> CHR ''/'' \<notin> set c)"

text \<open>
  The state \<^verbatim>\<open>TAXONOMY_CHECKED\<close> of the flow (line 124 of \<^verbatim>\<open>creation.py\<close>): the
  three required arguments are there, the world directory is resolved and exists, the
  names are cleaned, and the overview file of the taxonomy exists.
\<close>

definition taxonomy_checked ::
  "'e collaborators \<Rightarrow> (string \<times> pyval) list \<Rightarrow> fs \<Rightarrow> path \<Rightarrow> string \<Rightarrow> string \<Rightarrow> bool" where
  "taxonomy_checked h a s world_path clean_taxonomy clean_entry =
     (truthy (args_get a ''world_directory'') \<and> truthy (args_get a ''taxonomy'')
      \<and> truthy (args_get a ''entry_name'')
      \<and> resolve_world_path h (args_get a ''world_directory'') = Inr world_path
      \<and> path_exists s world_path
      \<and> clean_name h (args_get a ''taxonomy'') = Inr clean_taxonomy
      \<and> clean_name h (args_get a ''entry_name'') = Inr clean_entry
      \<and> path_exists s (path_join (path_join world_path ''taxonomies'')
                         (clean_taxonomy @ TAXONOMY_OVERVIEW_SUFFIX @ ''.md'')))"

text \<open>
  The step to the state \<^verbatim>\<open>CONTEXT_BUILT\<close> (lines 126 to 153): the collaborators that
  gather the context return the taxonomy context and the world context.
\<close>

definition context_gathered ::
  "'e collaborators \<Rightarrow> (string \<times> pyval) list \<Rightarrow> fs \<Rightarrow> path \<Rightarrow> string \<Rightarrow> string \<Rightarrow> string
     \<Rightarrow> bool" where
  "context_gathered h a s world_path clean_taxonomy taxonomy_context world_context =
     (extract_taxonomy_context h s world_path clean_taxonomy = Inr taxonomy_context
      \<and> (case get_existing_taxonomies h s world_path of
            Inl e \<Rightarrow> False
          | Inr existing_taxonomies \<Rightarrow>
              (case get_existing_entries_with_descriptions h s world_path of
                 Inl e \<Rightarrow> False
               | Inr existing_entries \<Rightarrow>
                   create_world_context_prompt h existing_taxonomies existing_entries
                     taxonomy_context (get_world_overview s world_path) (args_get a ''taxonomy'')
                   = Inr world_context)))"

text \<open>
  What \<^verbatim>\<open>p.mkdir(parents=True, exist_ok=True)\<close> can do to the filesystem: nothing on a
  read-only one, and otherwise make directories, where nothing was, at \<open>p\<close> and at paths
  that \<open>p\<close> begins with.
\<close>

definition dirs_added :: "path \<Rightarrow> fs \<Rightarrow> fs \<Rightarrow> bool" where
  "dirs_added p s s' =
     (read_only s' = read_only s \<and> (read_only s \<longrightarrow> s' = s)
      \<and> (\<forall>q. lookup s' q = lookup s q
              \<or> (take (length q) p = q \<and> lookup s q = None \<and> lookup s' q = Some Dir)))"

text \<open>
  Variants of the world of the example: mounted read-only, and with a regular file
  where the directory \<^verbatim>\<open>entries\<close> has to be. And a content that begins with a header
  block of its own.
\<close>

definition read_only_world :: fs where
  "read_only_world = example_world\<lparr>read_only := True\<rparr>"

definition obstructed_world :: fs where
  "obstructed_world =
     example_world\<lparr>nodes := (nodes example_world)([''world'', ''entries''] \<mapsto> File ''notes'')\<rparr>"

definition headed_content :: string where
  "headed_content =
     ''---'' @ NL @ ''title: '' @ DQ @ ''Oak'' @ DQ @ NL @ ''---'' @ NL @ NL @ ''A tall tree.''"

section \<open>Strings, paths and directories\<close>

lemma strip_all_space: "\<forall>x\<in>set c. is_space x \<Longrightarrow> strip c = []"
proof -
  assume "\<forall>x\<in>set c. is_space x"
  then have d: "dropWhile is_space c = []" by simp
  show ?thesis unfolding strip_def d by simp
qed

lemma join_contains: "t \<in> set ts \<Longrightarrow> \<exists>u v. join sep ts = u @ t @ v"
proof (induction sep ts rule: join.induct)
  case (1 sep)
  then show ?case by simp
next
  case (2 sep x)
  then have "join sep [x] = [] @ t @ []" by simp
  then show ?case by blast
next
  case (3 sep x y ys)
  show ?case
  proof (cases "t = x")
    case True
    then have "join sep (x # y # ys) = [] @ t @ (sep @ join sep (y # ys))" by simp
    then show ?thesis by blast
  next
    case False
    with 3 obtain u v where "join sep (y # ys) = u @ t @ v" by auto
    then have "join sep (x # y # ys) = (x @ sep @ u) @ t @ v" by simp
    then show ?thesis by blast
  qed
qed

lemma split_on_nonempty: "split_on c s \<noteq> []"
  by (induction s) (auto split: list.splits)

lemma split_on_none: "c \<notin> set s \<Longrightarrow> split_on c s = [s]"
  by (induction s) auto

lemma split_on_line: "c \<notin> set l \<Longrightarrow> split_on c (l @ c # r) = l # split_on c r"
  by (induction l) (auto split: list.splits simp: split_on_nonempty)

lemma join_split_on: "join [c] (split_on c s) = s"
proof (induction s)
  case Nil
  then show ?case by simp
next
  case (Cons x xs)
  obtain w ws where ws: "split_on c xs = w # ws"
    using split_on_nonempty [of c xs] by (cases "split_on c xs") auto
  show ?case
  proof (cases "x = c")
    case True
    then show ?thesis using Cons ws by simp
  next
    case False
    then show ?thesis using Cons ws by (cases ws) simp_all
  qed
qed

lemma path_join_component: "is_component c \<Longrightarrow> path_join p c = p @ [c]"
  by (cases c) (auto simp: is_component_def path_join_def parts_def split_on_none)

lemma component_suffix:
  assumes "is_component c" and "CHR ''/'' \<notin> set x" and "x \<noteq> []"
  shows "is_component (c @ x)"
proof -
  obtain y ys where x: "x = y # ys" using assms(3) by (cases x) auto
  have "c @ x \<noteq> ''.''" using assms(1) x by (cases c) (auto simp: is_component_def)
  moreover have "c @ x \<noteq> ''..''"
  proof
    assume e: "c @ x = ''..''"
    then have "length c + length x = 2" by (metis length_append length_Cons list.size(3) One_nat_def Suc_1)
    moreover have "c \<noteq> []" using assms(1) by (simp add: is_component_def)
    ultimately have "length c = 1 \<and> length x = 1" using x by (cases c) auto
    then obtain a where "c = [a]" by (cases c) auto
    with e have "c = ''.''" by simp
    then show False using assms(1) by (simp add: is_component_def)
  qed
  ultimately show ?thesis using assms(1,2) by (simp add: is_component_def)
qed

lemma os_error_class [simp]:
  "exn_class (file_exists_error p) = ''FileExistsError''"
  "exn_class (file_not_found_error p) = ''FileNotFoundError''"
  "exn_class (not_a_directory_error p) = ''NotADirectoryError''"
  "exn_class (is_a_directory_error p) = ''IsADirectoryError''"
  "exn_class (read_only_error p) = ''OSError''"
  by (simp_all add: file_exists_error_def file_not_found_error_def not_a_directory_error_def
        is_a_directory_error_def read_only_error_def os_error_def)

text \<open>
  Making \<^verbatim>\<open>w/e/c\<close> below an existing directory \<open>w\<close> succeeds on a writable filesystem
  when no file stands where a directory is needed; it touches nothing but the two
  directories, and nothing at all when \<^verbatim>\<open>w/e/c\<close> is there already.
\<close>

lemma mkdir_parents_two:
  assumes w: "lookup s w = Some Dir"
    and rw: "\<not> read_only s"
    and e: "\<forall>t. lookup s (w @ [e]) \<noteq> Some (File t)"
    and d: "\<forall>t. lookup s (w @ [e, c]) \<noteq> Some (File t)"
  shows "\<exists>s1. mkdir_parents s (w @ [e, c]) = Inr s1 \<and> read_only s1 = read_only s
           \<and> lookup s1 (w @ [e, c]) = Some Dir
           \<and> (\<forall>q. q \<noteq> w @ [e] \<longrightarrow> q \<noteq> w @ [e, c] \<longrightarrow> lookup s1 q = lookup s q)
           \<and> (\<forall>t. lookup s1 (w @ [e]) \<noteq> Some (File t))
           \<and> (lookup s (w @ [e, c]) = Some Dir \<longrightarrow> s1 = s)"
proof -
  have bl: "butlast (w @ [e, c]) = w @ [e]" "butlast (w @ [e]) = w"
    by (simp_all add: butlast_append)
  consider (there) "lookup s (w @ [e, c]) = Some Dir"
    | (parent) "lookup s (w @ [e, c]) = None" "lookup s (w @ [e]) = Some Dir"
    | (neither) "lookup s (w @ [e, c]) = None" "lookup s (w @ [e]) = None"
    using e d by (metis node.exhaust option.exhaust)
  then show ?thesis
  proof cases
    case there
    then show ?thesis
      using e by (subst mkdir_parents.simps) (simp add: os_mkdir_def is_dir_def)
  next
    case parent
    then show ?thesis
      using rw by (subst mkdir_parents.simps) (auto simp: os_mkdir_def bl lookup_def)
  next
    case neither
    let ?s1 = "s\<lparr>nodes := (nodes s)(w @ [e] \<mapsto> Dir)\<rparr>"
    have one: "mkdir_parents s (w @ [e]) = Inr ?s1"
      using neither w rw by (subst mkdir_parents.simps) (simp add: os_mkdir_def bl)
    have two: "mkdir_exist_ok ?s1 (w @ [e, c]) = Inr (?s1\<lparr>nodes := (nodes ?s1)(w @ [e, c] \<mapsto> Dir)\<rparr>)"
      using neither rw by (simp add: mkdir_exist_ok_def os_mkdir_def bl lookup_def)
    have "mkdir_parents s (w @ [e, c]) = Inr (?s1\<lparr>nodes := (nodes ?s1)(w @ [e, c] \<mapsto> Dir)\<rparr>)"
      using neither one two by (subst mkdir_parents.simps) (simp add: os_mkdir_def bl)
    then show ?thesis
      using neither by (auto simp: lookup_def)
  qed
qed

lemma open_write_ok:
  assumes "\<not> read_only s" and "lookup s (butlast p) = Some Dir" and "lookup s p \<noteq> Some Dir"
    and "p \<noteq> []"
  shows "open_write s p t = Inr (s\<lparr>nodes := (nodes s)(p \<mapsto> File t)\<rparr>)"
  using assms by (auto simp: open_write_def split: option.splits node.splits)

section \<open>The header block is read back as it was written\<close>

lemma unesc_plain: "x \<noteq> CHR 0x5C \<Longrightarrow> unesc (x # r) = x # unesc r"
  by (cases r) simp_all

lemma unesc_esc: "unesc (esc s) = s"
  by (induction s) (simp_all add: unesc_plain)

lemma esc_no_colon: "CHR '':'' \<notin> set (esc s)"
  by (induction s) simp_all

lemma esc_no_newline: "CHR 0x0A \<notin> set (esc s)"
  by (induction s) simp_all

lemma parse_render_line: "parse_line (render_line (k, v)) = Some (k, v)"
proof -
  have nc: "\<forall>x\<in>set (esc k). x \<noteq> CHR '':''"
    using esc_no_colon [of k] by blast
  have tw: "takeWhile (\<lambda>x. x \<noteq> CHR '':'') (esc k @ '': '' @ DQ @ esc v @ DQ) = esc k"
    using nc by simp
  have dw: "dropWhile (\<lambda>x. x \<noteq> CHR '':'') (esc k @ '': '' @ DQ @ esc v @ DQ)
              = '': '' @ DQ @ esc v @ DQ"
    using nc by simp
  show ?thesis
    using tw dw by (simp add: parse_line_def render_line_def Let_def unesc_esc butlast_append)
qed

lemma render_line_no_newline: "CHR 0x0A \<notin> set (render_line kv)"
  using esc_no_newline by (simp add: render_line_def)

lemma render_line_not_fence: "render_line kv \<noteq> ''---''"
proof
  assume "render_line kv = ''---''"
  then have "set (render_line kv) = set ''---''" by simp
  moreover have "CHR '':'' \<in> set (render_line kv)" by (simp add: render_line_def)
  ultimately show False by simp
qed

lemma parse_lines_render:
  "parse_lines (split_on (CHR 0x0A)
      (concat (map (\<lambda>kv. render_line kv @ NL) f) @ ''---'' @ NL @ r))
     = Some (f, split_on (CHR 0x0A) r)"
proof (induction f)
  case Nil
  have "split_on (CHR 0x0A) (''---'' @ CHR 0x0A # r) = ''---'' # split_on (CHR 0x0A) r"
    by (rule split_on_line) simp
  then show ?case by simp
next
  case (Cons kv f)
  let ?rest = "concat (map (\<lambda>kv. render_line kv @ NL) f) @ ''---'' @ NL @ r"
  have "split_on (CHR 0x0A) (render_line kv @ CHR 0x0A # ?rest)
          = render_line kv # split_on (CHR 0x0A) ?rest"
    by (rule split_on_line) (rule render_line_no_newline)
  then show ?case
    using Cons parse_render_line [of "fst kv" "snd kv"] render_line_not_fence [of kv]
    by simp
qed

lemma parse_header_render: "parse_header (render_header f @ b) = Some (f, b)"
proof -
  let ?lines = "concat (map (\<lambda>kv. render_line kv @ NL) f)"
  have a: "render_header f @ b = ''---'' @ CHR 0x0A # (?lines @ ''---'' @ NL @ (NL @ b))"
    by (simp add: render_header_def)
  have s1: "split_on (CHR 0x0A) (render_header f @ b)
            = ''---'' # split_on (CHR 0x0A) (?lines @ ''---'' @ NL @ (NL @ b))"
    unfolding a by (rule split_on_line) simp
  have s2: "split_on (CHR 0x0A) (NL @ b) = [] # split_on (CHR 0x0A) b"
    by simp
  have pl: "parse_lines (split_on (CHR 0x0A) (?lines @ ''---'' @ NL @ (NL @ b)))
            = Some (f, [] # split_on (CHR 0x0A) b)"
    unfolding parse_lines_render s2 ..
  show ?thesis
    unfolding parse_header_def s1 list.case pl
    by (simp add: join_split_on del: split_on.simps)
qed

lemma extract_add:
  "extract_frontmatter (add_frontmatter c f) = (f, snd (extract_frontmatter c))"
  by (simp add: add_frontmatter_def extract_frontmatter_def [of "render_header f @ _"]
        parse_header_render)

text \<open>
  C9. For content \<open>c\<close> without a header block and every mapping \<open>f\<close>,
  \<open>extract_frontmatter (add_frontmatter c f) = (f, c)\<close>: the mapping and the body come
  back as they went in. And \<open>add_frontmatter\<close> never stacks a second header: adding
  \<open>g\<close> to a document that already carries the header of \<open>f\<close> gives the document that
  adding \<open>g\<close> alone gives, and reading it back yields \<open>g\<close> and the one body.
\<close>

theorem frontmatter_round_trip:
  "(parse_header c = None \<longrightarrow> extract_frontmatter (add_frontmatter c f) = (f, c))
   \<and> add_frontmatter (add_frontmatter c f) g = add_frontmatter c g
   \<and> extract_frontmatter (add_frontmatter (add_frontmatter c f) g)
       = (g, snd (extract_frontmatter c))"
proof -
  have "parse_header c = None \<Longrightarrow> snd (extract_frontmatter c) = c"
    by (simp add: extract_frontmatter_def)
  moreover have "add_frontmatter (add_frontmatter c f) g = add_frontmatter c g"
    by (simp add: add_frontmatter_def [of "add_frontmatter c f"] extract_add)
       (simp add: add_frontmatter_def)
  ultimately show ?thesis by (simp add: extract_add)
qed

theorem frontmatter_round_trip_witness:
  "parse_header ''A tall tree.'' = None
   \<and> extract_frontmatter (add_frontmatter ''A tall tree.''
         [(''description'', ''A tall tree.''), (''article_type'', ''full'')])
       = ([(''description'', ''A tall tree.''), (''article_type'', ''full'')], ''A tall tree.'')"
proof -
  have n: "parse_header ''A tall tree.'' = None"
    by (simp add: parse_header_def)
  show ?thesis
    using n frontmatter_round_trip
      [of "''A tall tree.''" "[(''description'', ''A tall tree.''), (''article_type'', ''full'')]"]
    by simp
qed

section \<open>The tool router\<close>

text \<open>
  C5. A tool name that is none of the five registered names makes the router raise
  \<^verbatim>\<open>ValueError\<close> with the message \<^verbatim>\<open>Unknown entry tool: <name>\<close>, which is no
  result at all, empty or not; for a registered name the router's outcome is the
  handler's outcome, result or exception and filesystem alike.
\<close>

theorem unknown_tool_name:
  "(name \<notin> {''create_world_entry'', ''create_stub_entries'', ''generate_entry_descriptions'',
               ''add_entry_frontmatter'', ''analyze_world_consistency''}
      \<longrightarrow> handle_entry_tool h name arguments s
            = (Inl (PyExn ''ValueError'' (''Unknown entry tool: '' @ name)), s))
   \<and> (\<forall>handler. map_of (ENTRY_HANDLERS h) name = Some handler
        \<longrightarrow> handle_entry_tool h name arguments s = handler arguments s)
   \<and> handle_entry_tool h ''create_world_entry'' arguments s = create_world_entry h arguments s
   \<and> handle_entry_tool h ''create_stub_entries'' arguments s = create_stub_entries h arguments s
   \<and> handle_entry_tool h ''generate_entry_descriptions'' arguments s
       = generate_entry_descriptions h arguments s
   \<and> handle_entry_tool h ''add_entry_frontmatter'' arguments s
       = add_entry_frontmatter h arguments s
   \<and> handle_entry_tool h ''analyze_world_consistency'' arguments s
       = analyze_world_consistency h arguments s"
proof -
  have same: "\<And>r :: (pyexn + text_content list) \<times> fs.
      (case r of (Inr result, s') \<Rightarrow> (Inr result, s') | (Inl e, s') \<Rightarrow> (Inl e, s')) = r"
    by (simp split: prod.splits sum.splits)
  show ?thesis
    unfolding handle_entry_tool_def
    by (simp add: ENTRY_HANDLERS_def same)
qed

theorem unknown_tool_name_witness:
  "handle_entry_tool example_collaborators ''does_not_exist''
       (Some (example_arguments ''world'' ''flora'' ''A tall tree.'')) example_world
     = (Inl (PyExn ''ValueError'' ''Unknown entry tool: does_not_exist''), example_world)
   \<and> map_of (ENTRY_HANDLERS example_collaborators) ''create_stub_entries''
       = Some (\<lambda>a s. (Inr [], s))
   \<and> handle_entry_tool example_collaborators ''create_stub_entries'' None example_world
       = (Inr [], example_world)"
  using unknown_tool_name [of "''does_not_exist''" example_collaborators
          "Some (example_arguments ''world'' ''flora'' ''A tall tree.'')" example_world]
    unknown_tool_name [of "''create_stub_entries''" example_collaborators None example_world]
  by (simp add: ENTRY_HANDLERS_def example_collaborators_def)

section \<open>The worked example, evaluated\<close>

lemma clean_flora: "clean ''flora'' = ''flora''"
  by code_simp

lemma clean_minerals: "clean ''minerals'' = ''minerals''"
  by code_simp

lemma clean_red_oak: "clean ''Red Oak'' = ''red-oak''"
  by code_simp

lemma parts_world: "parts ''world'' = [''world'']"
  by (simp add: parts_def)

lemma parts_atlantis: "parts ''atlantis'' = [''atlantis'']"
  by (simp add: parts_def)

lemma example_args_get:
  "args_get (example_arguments w t c) ''world_directory'' = PStr w"
  "args_get (example_arguments w t c) ''taxonomy'' = PStr t"
  "args_get (example_arguments w t c) ''entry_name'' = PStr ''Red Oak''"
  "args_get (example_arguments w t c) ''entry_content'' = PStr c"
  by (simp_all add: example_arguments_def args_get_def)

lemma example_world_lookup:
  "lookup example_world [''world''] = Some Dir"
  "lookup example_world [''world'', ''taxonomies'', ''flora-overview.md''] = Some (File ''# Flora'')"
  "lookup example_world [''world'', ''taxonomies'', ''minerals-overview.md''] = None"
  "lookup example_world [''atlantis''] = None"
  "lookup example_world [''world'', ''entries''] = None"
  "lookup example_world [''world'', ''entries'', ''flora''] = None"
  "lookup example_world [''world'', ''entries'', ''flora'', ''red-oak.md''] = None"
  by (simp_all add: lookup_def example_world_def)

section \<open>Validation of the arguments, of the world and of the taxonomy\<close>

lemma truthy_nonempty: "truthy (args_get a k) \<Longrightarrow> a \<noteq> []"
  by (auto simp: args_get_def)

text \<open>
  The three checks, for a call whose \<^verbatim>\<open>entry_content\<close> is a string or absent, so that
  line 73 passes. A missing or empty required argument is answered with the text that
  names the three of them, without any collaborator and with the filesystem untouched.
  A world directory that does not exist is answered with the text that says so, and a
  taxonomy without overview file with the text that holds every name that
  \<^verbatim>\<open>get_existing_taxonomies\<close> returns; in both the filesystem is returned as it was.
\<close>

lemma required_check_text:
  assumes "args_get a ''entry_content'' = PStr c"
    and "\<not> truthy (args_get a ''world_directory'') \<or> \<not> truthy (args_get a ''taxonomy'')
         \<or> \<not> truthy (args_get a ''entry_name'')"
  shows "create_world_entry h (Some a) s =
           (Inr (text_result (if a = [] then no_arguments_text else required_text)), s)
         \<and> create_world_entry h None s = (Inr (text_result no_arguments_text), s)"
  using assms by (auto simp: create_world_entry_def Let_def)

lemma world_check_text:
  assumes "args_get a ''entry_content'' = PStr c"
    and "truthy (args_get a ''world_directory'')"
    and "truthy (args_get a ''taxonomy'')"
    and "truthy (args_get a ''entry_name'')"
    and "resolve_world_path h (args_get a ''world_directory'') = Inr world_path"
    and "\<not> path_exists s world_path"
  shows "create_world_entry h (Some a) s = (Inr (text_result (no_world_text world_path)), s)"
proof -
  have "a \<noteq> []" using assms(2) by (rule truthy_nonempty)
  then show ?thesis
    using assms by (simp add: create_world_entry_def create_world_entry_try_def Let_def)
qed

lemma taxonomy_check_text:
  assumes "args_get a ''entry_content'' = PStr c"
    and "truthy (args_get a ''world_directory'')"
    and "truthy (args_get a ''taxonomy'')"
    and "truthy (args_get a ''entry_name'')"
    and "resolve_world_path h (args_get a ''world_directory'') = Inr world_path"
    and "path_exists s world_path"
    and "clean_name h (args_get a ''taxonomy'') = Inr clean_taxonomy"
    and "clean_name h (args_get a ''entry_name'') = Inr clean_entry"
    and "\<not> path_exists s (path_join (path_join world_path ''taxonomies'')
                           (clean_taxonomy @ TAXONOMY_OVERVIEW_SUFFIX @ ''.md''))"
    and "get_existing_taxonomies h s world_path = Inr existing"
  shows "create_world_entry h (Some a) s
           = (Inr (text_result (no_taxonomy_text (args_get a ''taxonomy'') existing)), s)
         \<and> (\<forall>t\<in>set existing.
               \<exists>u v. no_taxonomy_text (args_get a ''taxonomy'') existing = u @ t @ v)"
proof -
  have ne: "a \<noteq> []" using assms(2) by (rule truthy_nonempty)
  have res: "create_world_entry h (Some a) s
           = (Inr (text_result (no_taxonomy_text (args_get a ''taxonomy'') existing)), s)"
    using assms ne by (simp add: create_world_entry_def create_world_entry_try_def Let_def)
  have "\<exists>u v. no_taxonomy_text (args_get a ''taxonomy'') existing = u @ t @ v"
    if t: "t \<in> set existing" for t
  proof -
    from t have "existing \<noteq> []" by auto
    moreover obtain u v where "join '', '' existing = u @ t @ v"
      using join_contains [OF t] by blast
    ultimately have "no_taxonomy_text (args_get a ''taxonomy'') existing
        = (''Error: Taxonomy '' @ SQ @ py_str (args_get a ''taxonomy'') @ SQ
            @ '' does not exist. Available taxonomies: '' @ u) @ t
          @ (v @ NL @ NL @ ''Use the create_taxonomy tool to create this taxonomy first.'')"
      by (simp add: no_taxonomy_text_def taxonomy_list_def)
    then show ?thesis by blast
  qed
  with res show ?thesis by blast
qed

text \<open>
  C6. A call that lacks a required argument is to be answered at once with a text that
  names the required arguments. The call with \<^verbatim>\<open>taxonomy\<close> and \<^verbatim>\<open>entry_name\<close>, without
  \<^verbatim>\<open>world_directory\<close> and with \<^verbatim>\<open>entry_content\<close> \<^verbatim>\<open>None\<close> is not: line 73 evaluates
  \<^verbatim>\<open>entry_content.strip()\<close> before the check of line 75, and the
  \<^verbatim>\<open>AttributeError\<close> leaves the handler, whatever the collaborators and the
  filesystem are.
\<close>

theorem required_check_after_strip:
  "map_of [(''taxonomy'', PStr ''flora''), (''entry_name'', PStr ''Red Oak''),
           (''entry_content'', PNone)] ''world_directory'' = None
   \<and> create_world_entry h
         (Some [(''taxonomy'', PStr ''flora''), (''entry_name'', PStr ''Red Oak''),
                (''entry_content'', PNone)]) s
       = (Inl (PyExn ''AttributeError''
                (SQ @ ''NoneType'' @ SQ @ '' object has no attribute '' @ SQ @ ''strip'' @ SQ)), s)"
  by (simp add: create_world_entry_def args_get_def attribute_error_def)

text \<open>
  C7. A call whose resolved world directory does not exist is to be answered with an
  error text, and nothing is to be written. The call for the world \<^verbatim>\<open>atlantis\<close>, which
  does not exist, with \<^verbatim>\<open>entry_content\<close> \<^verbatim>\<open>None\<close> writes nothing, but it is not answered
  with a text: line 73 raises \<^verbatim>\<open>AttributeError\<close> before the \<^verbatim>\<open>try\<close> block and before
  the world directory is looked at.
\<close>

theorem world_check_after_strip:
  "resolve_world_path example_collaborators (PStr ''atlantis'') = Inr [''atlantis'']
   \<and> lookup example_world [''atlantis''] = None
   \<and> create_world_entry example_collaborators
         (Some [(''world_directory'', PStr ''atlantis''), (''taxonomy'', PStr ''flora''),
                (''entry_name'', PStr ''Red Oak''), (''entry_content'', PNone)]) example_world
       = (Inl (PyExn ''AttributeError''
                (SQ @ ''NoneType'' @ SQ @ '' object has no attribute '' @ SQ @ ''strip'' @ SQ)),
          example_world)"
  by (simp add: create_world_entry_def args_get_def attribute_error_def example_collaborators_def
        parts_atlantis example_world_lookup)

text \<open>
  C2. A call whose taxonomy has no overview file is to be answered with an error text
  that lists the existing taxonomies, and no entry file is to be written. The call for
  the taxonomy \<^verbatim>\<open>minerals\<close>, which has no overview file in the world of the example,
  with \<^verbatim>\<open>entry_content\<close> \<^verbatim>\<open>None\<close> writes nothing, but it is not answered with the list:
  line 73 raises \<^verbatim>\<open>AttributeError\<close> before the \<^verbatim>\<open>try\<close> block and before the taxonomy
  is looked at.
\<close>

theorem taxonomy_check_after_strip:
  "lookup example_world [''world''] = Some Dir
   \<and> clean_name example_collaborators (PStr ''minerals'') = Inr ''minerals''
   \<and> lookup example_world [''world'', ''taxonomies'', ''minerals-overview.md''] = None
   \<and> get_existing_taxonomies example_collaborators example_world [''world'']
       = Inr [''fauna'', ''flora'']
   \<and> create_world_entry example_collaborators
         (Some [(''world_directory'', PStr ''world''), (''taxonomy'', PStr ''minerals''),
                (''entry_name'', PStr ''Red Oak''), (''entry_content'', PNone)]) example_world
       = (Inl (PyExn ''AttributeError''
                (SQ @ ''NoneType'' @ SQ @ '' object has no attribute '' @ SQ @ ''strip'' @ SQ)),
          example_world)"
  by (simp add: create_world_entry_def args_get_def attribute_error_def example_collaborators_def
        clean_minerals example_world_lookup)

section \<open>What escapes the handler\<close>

lemma create_world_entry_text_content:
  assumes "args_get a ''entry_content'' = PStr c"
  shows "\<exists>r. fst (create_world_entry h (Some a) s) = Inr r"
  using assms by (simp add: create_world_entry_def Let_def split: prod.splits sum.splits)

text \<open>
  C8. A failure inside the flow should come back as an error text. With the three
  required arguments and an \<^verbatim>\<open>entry_content\<close> that is \<^verbatim>\<open>None\<close>, line 73 evaluates
  \<^verbatim>\<open>entry_content.strip()\<close> before the \<^verbatim>\<open>try\<close> block is entered, and the
  \<^verbatim>\<open>AttributeError\<close> leaves the handler as an exception, whatever the collaborators
  and the filesystem are.
\<close>

theorem content_strip_outside_try:
  "create_world_entry h
     (Some [(''world_directory'', PStr ''world''), (''taxonomy'', PStr ''flora''),
            (''entry_name'', PStr ''Red Oak''), (''entry_content'', PNone)]) s
   = (Inl (PyExn ''AttributeError''
            (SQ @ ''NoneType'' @ SQ @ '' object has no attribute '' @ SQ @ ''strip'' @ SQ)), s)"
  by (simp add: create_world_entry_def args_get_def attribute_error_def)

section \<open>From the arguments to the content\<close>

lemma flow_to_content:
  assumes "taxonomy_checked h a s world_path clean_taxonomy clean_entry"
    and "context_gathered h a s world_path clean_taxonomy taxonomy_context world_context"
    and "args_get a ''entry_content'' = PStr content"
  shows "create_world_entry h (Some a) s =
     (if strip content \<noteq> [] then
        (case create_with_content h world_path clean_taxonomy clean_entry (args_get a ''entry_name'')
                content (args_get a ''taxonomy'') taxonomy_context world_context s of
           (Inl e, s') \<Rightarrow> (Inr (text_result (failure_text e)), s')
         | (Inr result, s') \<Rightarrow> (Inr result, s'))
      else (Inr (text_result (context_only_text (args_get a ''entry_name'') (args_get a ''taxonomy'')
                   world_context)), s))"
proof -
  have ne: "a \<noteq> []" using assms(1) truthy_nonempty by (auto simp: taxonomy_checked_def)
  show ?thesis
    using assms ne
    by (auto simp: create_world_entry_def create_world_entry_try_def taxonomy_checked_def
          context_gathered_def Let_def split: sum.splits)
qed

lemma example_checked:
  "taxonomy_checked example_collaborators (example_arguments ''world'' ''flora'' c) example_world
     [''world''] ''flora'' ''red-oak''"
proof -
  have pj: "path_join (path_join [''world''] ''taxonomies'')
              (''flora'' @ TAXONOMY_OVERVIEW_SUFFIX @ ''.md'')
            = [''world'', ''taxonomies'', ''flora-overview.md'']"
    by (simp add: path_join_def parts_def TAXONOMY_OVERVIEW_SUFFIX_def)
  show ?thesis
    unfolding taxonomy_checked_def pj
    by (simp add: example_args_get example_collaborators_def parts_world clean_flora clean_red_oak
          path_exists_def example_world_lookup)
qed

lemma example_gathered:
  "context_gathered example_collaborators a s [''world''] ''flora'' []
     ''Existing taxonomies: fauna, flora''"
  by (simp add: context_gathered_def example_collaborators_def)

text \<open>
  C3. With a valid world directory and taxonomy and an \<^verbatim>\<open>entry_content\<close> that is
  empty or absent, the handler returns the one text block of the world context and
  the filesystem is as it was: no file under \<^verbatim>\<open>entries/\<close> is created or modified.
\<close>

theorem empty_content_context_only:
  assumes "taxonomy_checked h a s world_path clean_taxonomy clean_entry"
    and "context_gathered h a s world_path clean_taxonomy taxonomy_context world_context"
    and "args_get a ''entry_content'' = PStr []"
  shows "create_world_entry h (Some a) s
           = (Inr (text_result (context_only_text (args_get a ''entry_name'')
                     (args_get a ''taxonomy'') world_context)), s)"
  using flow_to_content [OF assms] by (simp add: strip_def)

theorem empty_content_context_only_witness:
  "create_world_entry example_collaborators (Some (example_arguments ''world'' ''flora'' [])) example_world
     = (Inr [TextContent ''text''
          (''# World Context for Creating '' @ SQ @ ''Red Oak'' @ SQ @ '' in flora'' @ NL @ NL
           @ ''Existing taxonomies: fauna, flora'' @ NL @ NL @ ''---'' @ NL @ NL
           @ ''**Next Step**: Generate entry content that references existing entries using the linking format provided above, then call this tool again with your `entry_content`.'')],
        example_world)"
  using empty_content_context_only [OF example_checked example_gathered, of "[]"]
  by (simp add: example_args_get text_result_def context_only_text_def)

text \<open>
  C10. An \<^verbatim>\<open>entry_content\<close> that is not empty but consists of whitespace only is
  treated as the empty one: the same context block is returned, the filesystem is as
  it was, and the outcome equals that of the call with the empty string in its place.
  Presence of content is decided by \<^verbatim>\<open>strip()\<close>.
\<close>

theorem whitespace_content_context_only:
  assumes "taxonomy_checked h a s world_path clean_taxonomy clean_entry"
    and "context_gathered h a s world_path clean_taxonomy taxonomy_context world_context"
    and "args_get a ''entry_content'' = PStr content"
    and "content \<noteq> []"
    and "\<forall>x\<in>set content. is_space x"
  shows "create_world_entry h (Some a) s
           = (Inr (text_result (context_only_text (args_get a ''entry_name'')
                     (args_get a ''taxonomy'') world_context)), s)
         \<and> create_world_entry h (Some a) s
           = create_world_entry h (Some ((''entry_content'', PStr []) # a)) s"
proof -
  let ?a0 = "(''entry_content'', PStr []) # a"
  have same: "args_get ?a0 ''world_directory'' = args_get a ''world_directory''"
    "args_get ?a0 ''taxonomy'' = args_get a ''taxonomy''"
    "args_get ?a0 ''entry_name'' = args_get a ''entry_name''"
    "args_get ?a0 ''entry_content'' = PStr []"
    by (simp_all add: args_get_def)
  have t0: "taxonomy_checked h ?a0 s world_path clean_taxonomy clean_entry"
    using assms(1) unfolding taxonomy_checked_def same .
  have g0: "context_gathered h ?a0 s world_path clean_taxonomy taxonomy_context world_context"
    using assms(2) unfolding context_gathered_def same .
  have blank: "strip content = []" using assms(5) by (rule strip_all_space)
  have "create_world_entry h (Some a) s
           = (Inr (text_result (context_only_text (args_get a ''entry_name'')
                     (args_get a ''taxonomy'') world_context)), s)"
    using flow_to_content [OF assms(1,2,3)] blank by simp
  moreover have "create_world_entry h (Some ?a0) s
           = (Inr (text_result (context_only_text (args_get a ''entry_name'')
                     (args_get a ''taxonomy'') world_context)), s)"
    using flow_to_content [OF t0 g0 same(4)] by (simp add: strip_def same)
  ultimately show ?thesis by simp
qed

theorem whitespace_content_context_only_witness:
  "is_space (CHR '' '') \<and> is_space (CHR 0x0A) \<and> is_space (CHR 0x09)
   \<and> create_world_entry example_collaborators
        (Some (example_arguments ''world'' ''flora'' [CHR '' '', CHR 0x0A, CHR 0x09])) example_world
     = (Inr [TextContent ''text''
          (''# World Context for Creating '' @ SQ @ ''Red Oak'' @ SQ @ '' in flora'' @ NL @ NL
           @ ''Existing taxonomies: fauna, flora'' @ NL @ NL @ ''---'' @ NL @ NL
           @ ''**Next Step**: Generate entry content that references existing entries using the linking format provided above, then call this tool again with your `entry_content`.'')],
        example_world)"
proof -
  have sp: "\<forall>x\<in>set [CHR '' '', CHR 0x0A, CHR 0x09]. is_space x"
    by (simp add: is_space_def)
  have c: "args_get (example_arguments ''world'' ''flora'' [CHR '' '', CHR 0x0A, CHR 0x09]) ''entry_content''
             = PStr [CHR '' '', CHR 0x0A, CHR 0x09]"
    by (simp add: example_args_get)
  have ne: "[CHR '' '', CHR 0x0A, CHR 0x09] \<noteq> []" by simp
  show ?thesis
    using whitespace_content_context_only [OF example_checked example_gathered c ne sp] sp
    by (simp add: example_args_get text_result_def context_only_text_def)
qed

section \<open>Writing the entry file\<close>

lemma snd_create_with_content:
  "snd (create_with_content h wp ct ce ename content tax tctx wc s)
     = snd (create_entry_file h wp ct ce ename content tax tctx s)"
  by (simp add: create_with_content_def Let_def split: prod.splits sum.splits)

lemma snd_case_result:
  "snd (case r of (Inl e, s') \<Rightarrow> (Inr (f e), s') | (Inr x, s') \<Rightarrow> (Inr x, s')) = snd r"
  by (simp split: prod.splits sum.splits)

lemma snd_create_world_entry:
  assumes "taxonomy_checked h a s world_path clean_taxonomy clean_entry"
    and "context_gathered h a s world_path clean_taxonomy taxonomy_context world_context"
    and "args_get a ''entry_content'' = PStr content"
    and "strip content \<noteq> []"
  shows "snd (create_world_entry h (Some a) s)
           = snd (create_entry_file h world_path clean_taxonomy clean_entry (args_get a ''entry_name'')
                    content (args_get a ''taxonomy'') taxonomy_context s)"
  using flow_to_content [OF assms(1,2,3)] assms(4)
  by (simp add: snd_case_result snd_create_with_content)


lemma create_entry_file_writes:
  assumes w: "lookup s wp = Some Dir" and rw: "\<not> read_only s"
    and ct: "is_component ct" and ce: "is_component ce"
    and e: "\<forall>t. lookup s (wp @ [''entries'']) \<noteq> Some (File t)"
    and d: "\<forall>t. lookup s (wp @ [''entries'', ct]) \<noteq> Some (File t)"
    and f: "lookup s (wp @ [''entries'', ct, ce @ ''.md'']) \<noteq> Some Dir"
    and descr: "extract_description_from_content h content = Inr descr"
    and doc: "add_frontmatter_to_content h content (entry_frontmatter descr tctx) = Inr doc"
  shows "\<exists>s2. create_entry_file h wp ct ce ename content (PStr tax) tctx s
                = (Inr (wp @ [''entries'', ct, ce @ ''.md'']), s2)
           \<and> lookup s2 (wp @ [''entries'', ct, ce @ ''.md''])
                = Some (File (doc @ taxonomy_footer (title (unicodedata h) tax)))
           \<and> lookup s2 (wp @ [''entries'', ct]) = Some Dir
           \<and> read_only s2 = read_only s
           \<and> (\<forall>q. q \<noteq> wp @ [''entries''] \<longrightarrow> q \<noteq> wp @ [''entries'', ct]
                  \<longrightarrow> q \<noteq> wp @ [''entries'', ct, ce @ ''.md''] \<longrightarrow> lookup s2 q = lookup s q)
           \<and> (\<forall>t. lookup s2 (wp @ [''entries'']) \<noteq> Some (File t))
           \<and> (lookup s (wp @ [''entries'', ct]) = Some Dir
                \<longrightarrow> (\<forall>q. q \<noteq> wp @ [''entries'', ct, ce @ ''.md''] \<longrightarrow> lookup s2 q = lookup s q))"
proof -
  let ?dir = "wp @ [''entries'', ct]"
  let ?file = "wp @ [''entries'', ct, ce @ ''.md'']"
  have ec: "is_component ''entries''" by (simp add: is_component_def)
  have fc: "is_component (ce @ ''.md'')" using ce by (rule component_suffix) simp_all
  have dirp: "path_join (path_join wp ''entries'') ct = ?dir"
    using ec ct by (simp add: path_join_component)
  have filep: "path_join ?dir (ce @ MARKDOWN_EXTENSION) = ?file"
    using fc by (simp add: path_join_component MARKDOWN_EXTENSION_def)
  obtain s1 where mk: "mkdir_parents s ?dir = Inr s1" and ro: "read_only s1 = read_only s"
    and dir1: "lookup s1 ?dir = Some Dir"
    and frame1: "\<forall>q. q \<noteq> wp @ [''entries''] \<longrightarrow> q \<noteq> ?dir \<longrightarrow> lookup s1 q = lookup s q"
    and ent1: "\<forall>t. lookup s1 (wp @ [''entries'']) \<noteq> Some (File t)"
    and same1: "lookup s ?dir = Some Dir \<longrightarrow> s1 = s"
    using mkdir_parents_two [OF w rw e d] by (elim exE conjE) blast
  have f1: "lookup s1 ?file \<noteq> Some Dir" using frame1 f by simp
  have bl: "butlast ?file = ?dir" by (simp add: butlast_append)
  let ?s2 = "s1\<lparr>nodes := (nodes s1)(?file \<mapsto> File (doc @ taxonomy_footer (title (unicodedata h) tax)))\<rparr>"
  have wr: "open_write s1 ?file (doc @ taxonomy_footer (title (unicodedata h) tax)) = Inr ?s2"
    using rw ro dir1 f1 bl by (intro open_write_ok) simp_all
  have res: "create_entry_file h wp ct ce ename content (PStr tax) tctx s = (Inr ?file, ?s2)"
    using mk descr doc wr by (simp add: create_entry_file_def dirp filep Let_def)
  have look2: "\<And>q. lookup ?s2 q
      = (if q = ?file then Some (File (doc @ taxonomy_footer (title (unicodedata h) tax))) else lookup s1 q)"
    by (simp add: lookup_def)
  have unchanged: "lookup s ?dir = Some Dir
      \<longrightarrow> (\<forall>q. q \<noteq> ?file \<longrightarrow> lookup ?s2 q = lookup s q)"
    using same1 by (auto simp: lookup_def)
  have frame2: "\<forall>q. q \<noteq> wp @ [''entries''] \<longrightarrow> q \<noteq> ?dir \<longrightarrow> q \<noteq> ?file
      \<longrightarrow> lookup ?s2 q = lookup s q"
    using frame1 by (simp add: look2)
  have "lookup ?s2 ?file = Some (File (doc @ taxonomy_footer (title (unicodedata h) tax)))"
    "lookup ?s2 ?dir = Some Dir" "read_only ?s2 = read_only s"
    "\<forall>t. lookup ?s2 (wp @ [''entries'']) \<noteq> Some (File t)"
    using ro dir1 ent1 by (simp_all add: look2)
  then show ?thesis
    using res unchanged frame2 by blast
qed

lemma entry_file_after_call:
  assumes "taxonomy_checked h a s world_path clean_taxonomy clean_entry"
    and "context_gathered h a s world_path clean_taxonomy taxonomy_context world_context"
    and "args_get a ''taxonomy'' = PStr taxonomy"
    and "args_get a ''entry_content'' = PStr content"
    and "strip content \<noteq> []"
    and "is_component clean_taxonomy"
    and "is_component clean_entry"
    and "lookup s world_path = Some Dir"
    and "\<not> read_only s"
    and "\<forall>t. lookup s (world_path @ [''entries'']) \<noteq> Some (File t)"
    and "\<forall>t. lookup s (world_path @ [''entries'', clean_taxonomy]) \<noteq> Some (File t)"
    and "lookup s (world_path @ [''entries'', clean_taxonomy, clean_entry @ ''.md'']) \<noteq> Some Dir"
    and "extract_description_from_content h content = Inr description"
    and "add_frontmatter_to_content h content (entry_frontmatter description taxonomy_context)
         = Inr with_header"
  shows "lookup (snd (create_world_entry h (Some a) s))
           (world_path @ [''entries'', clean_taxonomy, clean_entry @ ''.md''])
         = Some (File (with_header @ taxonomy_footer (title (unicodedata h) taxonomy)))"
proof -
  have "snd (create_world_entry h (Some a) s)
          = snd (create_entry_file h world_path clean_taxonomy clean_entry (args_get a ''entry_name'')
                   content (PStr taxonomy) taxonomy_context s)"
    using snd_create_world_entry [OF assms(1,2,4,5)] assms(3) by simp
  moreover obtain s2 where
    "create_entry_file h world_path clean_taxonomy clean_entry (args_get a ''entry_name'')
        content (PStr taxonomy) taxonomy_context s
      = (Inr (world_path @ [''entries'', clean_taxonomy, clean_entry @ ''.md'']), s2)"
    "lookup s2 (world_path @ [''entries'', clean_taxonomy, clean_entry @ ''.md''])
      = Some (File (with_header @ taxonomy_footer (title (unicodedata h) taxonomy)))"
    using create_entry_file_writes [OF assms(8,9,6,7,10,11,12,13,14)] by blast
  ultimately show ?thesis by simp
qed





lemma title_flora: "title (unicodedata example_collaborators) ''flora'' = ''Flora''"
  by (simp add: example_collaborators_def) code_simp

lemma example_components: "is_component ''flora''" "is_component ''red-oak''"
  by (simp_all add: is_component_def)



section \<open>Calling twice\<close>






section \<open>Content that is not empty but blank\<close>

lemma blank_content_no_write:
  assumes "args_get a ''entry_content'' = PStr content" and "strip content = []"
  shows "snd (create_world_entry h (Some a) s) = s"
  using assms
  by (simp add: create_world_entry_def create_world_entry_try_def Let_def
        split: prod.splits sum.splits)





section \<open>Calls that write no entry file\<close>

lemma os_mkdir_Inr:
  "os_mkdir s p = Inr s'
     \<Longrightarrow> \<not> read_only s \<and> lookup s p = None \<and> s' = s\<lparr>nodes := (nodes s)(p \<mapsto> Dir)\<rparr>"
  by (auto simp: os_mkdir_def split: option.splits node.splits if_splits)

lemma mkdir_exist_ok_Inr:
  "mkdir_exist_ok s p = Inr s'
     \<Longrightarrow> s' = s \<or> (\<not> read_only s \<and> lookup s p = None \<and> s' = s\<lparr>nodes := (nodes s)(p \<mapsto> Dir)\<rparr>)"
  by (auto simp: mkdir_exist_ok_def dest: os_mkdir_Inr split: sum.splits if_splits)

lemma dirs_added_refl: "dirs_added p s s"
  by (simp add: dirs_added_def)

lemma dirs_added_step:
  assumes "\<not> read_only s" and "lookup s p = None"
  shows "dirs_added p s (s\<lparr>nodes := (nodes s)(p \<mapsto> Dir)\<rparr>)"
  using assms by (auto simp: dirs_added_def lookup_def split: if_splits)

lemma dirs_added_trans: "dirs_added p s s' \<Longrightarrow> dirs_added p s' s'' \<Longrightarrow> dirs_added p s s''"
  unfolding dirs_added_def by metis

lemma take_butlast_eq: "take (length q) (butlast p) = q \<Longrightarrow> take (length q) p = q"
proof -
  assume a: "take (length q) (butlast p) = q"
  then have "length (take (length q) (butlast p)) = length q" by simp
  then have "length q \<le> length (butlast p)" by (simp add: min_def split: if_splits)
  then have "take (length q) (butlast p) = take (length q) p"
    by (simp add: butlast_conv_take)
  with a show ?thesis by simp
qed

lemma dirs_added_parent: "dirs_added (butlast p) s s' \<Longrightarrow> dirs_added p s s'"
  unfolding dirs_added_def using take_butlast_eq by blast

lemma mkdir_parents_adds_dirs: "mkdir_parents s p = Inr s' \<Longrightarrow> dirs_added p s s'"
proof (induction s p arbitrary: s' rule: mkdir_parents.induct)
  case (1 s p)
  show ?case
  proof (cases "os_mkdir s p")
    case (Inr t)
    then have "s' = t" using "1.prems" by (subst (asm) mkdir_parents.simps) simp
    then show ?thesis using os_mkdir_Inr [OF Inr] dirs_added_step by blast
  next
    case (Inl e)
    show ?thesis
    proof (cases "exn_class e = ''FileNotFoundError''")
      case False
      then have "s' = s" using "1.prems" Inl
        by (subst (asm) mkdir_parents.simps) (simp split: if_splits)
      then show ?thesis by (simp add: dirs_added_refl)
    next
      case True
      then obtain t where ne: "p \<noteq> []" and t: "mkdir_parents s (butlast p) = Inr t"
        and ok: "mkdir_exist_ok t p = Inr s'"
        using "1.prems" Inl
        by (subst (asm) mkdir_parents.simps) (auto split: if_splits sum.splits)
      have a: "dirs_added p s t" using "1.IH" [OF Inl True ne t] by (rule dirs_added_parent)
      have "dirs_added p t s'"
        using mkdir_exist_ok_Inr [OF ok] dirs_added_step dirs_added_refl by blast
      with a show ?thesis by (rule dirs_added_trans)
    qed
  qed
qed

lemma dirs_added_exists: "dirs_added p s s' \<Longrightarrow> lookup s q \<noteq> None \<Longrightarrow> lookup s' q = lookup s q"
  unfolding dirs_added_def by metis

lemma dirs_added_other: "dirs_added p s s' \<Longrightarrow> take (length q) p \<noteq> q \<Longrightarrow> lookup s' q = lookup s q"
  unfolding dirs_added_def by metis

lemma open_write_Inr: "open_write s p t = Inr s' \<Longrightarrow> \<not> read_only s"
  by (auto simp: open_write_def split: option.splits node.splits if_splits)

text \<open>On a read-only filesystem no call changes anything.\<close>

lemma create_entry_file_read_only:
  assumes "read_only s"
  shows "snd (create_entry_file h wp ct ce ename content tax tctx s) = s"
proof -
  have m: "\<And>p s1. mkdir_parents s p = Inr s1 \<Longrightarrow> s1 = s"
    using assms mkdir_parents_adds_dirs by (auto simp: dirs_added_def)
  have w: "\<And>p t s2. open_write s p t \<noteq> Inr s2"
    using assms open_write_Inr by blast
  show ?thesis
    using w by (auto simp: create_entry_file_def Let_def split: sum.splits dest!: m)
qed

lemma read_only_try:
  assumes "read_only s"
  shows "snd (create_world_entry_try h world_directory taxonomy entry_name entry_content s) = s"
  by (simp add: create_world_entry_try_def snd_create_with_content
        create_entry_file_read_only [OF assms] Let_def split: sum.splits pyval.splits)

lemma read_only_no_write:
  assumes "read_only s"
  shows "snd (create_world_entry h arguments s) = s"
  by (simp add: create_world_entry_def snd_case_result read_only_try [OF assms] Let_def
        split: option.splits sum.splits)

text \<open>A regular file in the place of \<^verbatim>\<open>entries\<close> makes \<^verbatim>\<open>mkdir\<close> fail.\<close>

lemma create_entry_file_obstructed:
  assumes "lookup s (wp @ [''entries'']) = Some (File t)"
    and "lookup s (wp @ [''entries'', ct]) = None"
    and "is_component ct"
  shows "snd (create_entry_file h wp ct ce ename content tax tctx s) = s"
proof -
  have ec: "is_component ''entries''" by (simp add: is_component_def)
  have dirp: "path_join (path_join wp ''entries'') ct = wp @ [''entries'', ct]"
    using ec assms(3) by (simp add: path_join_component)
  have "mkdir_parents s (wp @ [''entries'', ct]) = Inl (not_a_directory_error (wp @ [''entries'', ct]))"
    using assms(1,2)
    by (subst mkdir_parents.simps) (simp add: os_mkdir_def butlast_append is_dir_def)
  then show ?thesis
    by (simp add: create_entry_file_def dirp Let_def)
qed

text \<open>A taxonomy without \<^verbatim>\<open>title()\<close> stops the call after the directories are made.\<close>

lemma create_entry_file_title_fails:
  assumes "py_title (unicodedata h) tax = Inl e"
  shows "dirs_added (path_join (path_join wp ''entries'') ct) s
           (snd (create_entry_file h wp ct ce ename content tax tctx s))"
  using assms mkdir_parents_adds_dirs [of s "path_join (path_join wp ''entries'') ct"]
  by (auto simp: create_entry_file_def Let_def dirs_added_refl split: sum.splits)

lemma title_fails_call:
  assumes "taxonomy_checked h a s world_path clean_taxonomy clean_entry"
    and "context_gathered h a s world_path clean_taxonomy taxonomy_context world_context"
    and "args_get a ''entry_content'' = PStr content"
    and "py_title (unicodedata h) (args_get a ''taxonomy'') = Inl e"
  shows "dirs_added (path_join (path_join world_path ''entries'') clean_taxonomy) s
           (snd (create_world_entry h (Some a) s))"
proof (cases "strip content = []")
  case True
  then show ?thesis
    using blank_content_no_write [OF assms(3) True, of h s] by (simp add: dirs_added_refl)
next
  case False
  then show ?thesis
    using snd_create_world_entry [OF assms(1,2,3)] create_entry_file_title_fails [OF assms(4)]
    by simp
qed

text \<open>The three cases in the world of the example.\<close>

lemma example_checked_in:
  assumes "lookup s [''world''] \<noteq> None"
    and "lookup s [''world'', ''taxonomies'', ''flora-overview.md''] \<noteq> None"
  shows "taxonomy_checked example_collaborators (example_arguments ''world'' ''flora'' c) s
           [''world''] ''flora'' ''red-oak''"
proof -
  have pj: "path_join (path_join [''world''] ''taxonomies'')
              (''flora'' @ TAXONOMY_OVERVIEW_SUFFIX @ ''.md'')
            = [''world'', ''taxonomies'', ''flora-overview.md'']"
    by (simp add: path_join_def parts_def TAXONOMY_OVERVIEW_SUFFIX_def)
  show ?thesis
    unfolding taxonomy_checked_def pj
    using assms
    by (simp add: example_args_get example_collaborators_def parts_world clean_flora clean_red_oak
          path_exists_def)
qed

lemma read_only_example:
  "lookup (snd (create_world_entry example_collaborators
             (Some (example_arguments ''world'' ''flora'' ''A tall tree.'')) read_only_world))
       [''world'', ''entries'', ''flora'', ''red-oak.md'']
     = None"
  by (simp add: read_only_no_write read_only_world_def lookup_def example_world_def)

lemma obstructed_example:
  "lookup (snd (create_world_entry example_collaborators
             (Some (example_arguments ''world'' ''flora'' ''A tall tree.'')) obstructed_world))
       [''world'', ''entries'', ''flora'', ''red-oak.md'']
     = None"
proof -
  let ?a = "example_arguments ''world'' ''flora'' ''A tall tree.''"
  have c: "args_get ?a ''entry_content'' = PStr ''A tall tree.''"
    by (simp add: example_args_get)
  have ne: "strip ''A tall tree.'' \<noteq> []" by code_simp
  have chk: "taxonomy_checked example_collaborators ?a obstructed_world
               [''world''] ''flora'' ''red-oak''"
    by (rule example_checked_in) (simp_all add: obstructed_world_def lookup_def example_world_def)
  have e: "lookup obstructed_world ([''world''] @ [''entries'']) = Some (File ''notes'')"
    and d: "lookup obstructed_world ([''world''] @ [''entries'', ''flora'']) = None"
    and f: "lookup obstructed_world [''world'', ''entries'', ''flora'', ''red-oak.md''] = None"
    by (simp_all add: obstructed_world_def lookup_def example_world_def)
  have "snd (create_world_entry example_collaborators (Some ?a) obstructed_world)
          = obstructed_world"
    using snd_create_world_entry [OF chk example_gathered c ne]
      create_entry_file_obstructed [OF e d example_components(1)]
    by simp
  then show ?thesis using f by simp
qed

text \<open>
  A content with a header block of its own: \<open>add_frontmatter\<close> replaces the block, and
  the file holds the body of the content, not the content.
\<close>

lemma headed_content_header:
  "parse_header headed_content = Some ([(''title'', ''Oak'')], ''A tall tree.'')"
proof -
  have eq: "headed_content = render_header [(''title'', ''Oak'')] @ ''A tall tree.''"
    by code_simp
  show ?thesis unfolding eq by (rule parse_header_render)
qed

lemma headed_example:
  "lookup (snd (create_world_entry example_collaborators
             (Some (example_arguments ''world'' ''flora'' headed_content)) example_world))
       [''world'', ''entries'', ''flora'', ''red-oak.md'']
     = Some (File (render_header [(''description'', extract_description headed_content),
                                  (''article_type'', ''full'')]
                   @ ''A tall tree.'' @ NL @ NL @ ''---'' @ NL @ ''*Entry in Flora taxonomy*'' @ NL))"
proof -
  let ?a = "example_arguments ''world'' ''flora'' headed_content"
  have tax: "args_get ?a ''taxonomy'' = PStr ''flora''"
    and c: "args_get ?a ''entry_content'' = PStr headed_content"
    by (simp_all add: example_args_get)
  have ne: "strip headed_content \<noteq> []" by code_simp
  have w: "lookup example_world [''world''] = Some Dir"
    and rw: "\<not> read_only example_world"
    and e: "\<forall>t. lookup example_world ([''world''] @ [''entries'']) \<noteq> Some (File t)"
    and d: "\<forall>t. lookup example_world ([''world''] @ [''entries'', ''flora'']) \<noteq> Some (File t)"
    and f: "lookup example_world ([''world''] @ [''entries'', ''flora'', ''red-oak'' @ ''.md''])
              \<noteq> Some Dir"
    by (simp_all add: example_world_lookup) (simp add: example_world_def)
  have descr: "extract_description_from_content example_collaborators headed_content
                 = Inr (extract_description headed_content)"
    by (simp add: example_collaborators_def)
  have doc: "add_frontmatter_to_content example_collaborators headed_content
               (entry_frontmatter (extract_description headed_content) [])
             = Inr (render_header [(''description'', extract_description headed_content),
                                   (''article_type'', ''full'')] @ ''A tall tree.'')"
    by (simp add: example_collaborators_def entry_frontmatter_def add_frontmatter_def
          extract_frontmatter_def headed_content_header)
  show ?thesis
    using entry_file_after_call [OF example_checked example_gathered tax c ne example_components
        w rw e d f descr doc]
    by (simp add: title_flora taxonomy_footer_def)
qed

end
